theory Spec2Isabelle
  imports Main
begin

section \<open>Data model of \<^verbatim>\<open>server/projLevel/deploy.js\<close>\<close>

text \<open>
  The image descriptor \<^verbatim>\<open>{name, server}\<close> that \<^verbatim>\<open>addNginxContainer\<close> hands to
  \<^verbatim>\<open>containerObj\<close>.
\<close>

record imageObj =
  name :: string
  server :: bool

text \<open>
  A container entry, as \<^verbatim>\<open>remoteServerObj\<close> and \<^verbatim>\<open>containerObj\<close> build it. The
  object literals of the source do not all carry every key: \<^verbatim>\<open>remoteServerObj\<close> writes no
  \<^verbatim>\<open>nginx\<close> key, so \<open>nginx\<close> and \<open>machine\<close> are optional (\<open>None\<close> is JavaScript's
  \<^verbatim>\<open>undefined\<close>, which is falsy).
\<close>

record container =
  cleanName :: string
  image :: string
  dockerId :: string
  name :: string
  server :: bool
  nginx :: "bool option"
  status :: string
  machine :: "string option"

text \<open>The deployment record of \<^verbatim>\<open>createRemoteObj\<close>.\<close>

record remoteObj =
  cleanName :: string
  basePath :: string
  machine :: string
  ipAddress :: string
  containers :: "container list"
  counter :: nat
  status :: nat

text \<open>
  The payload handed to the container runtime. The three generators write different keys,
  so every key that one of them omits is optional. An object used as a dictionary
  (\<^verbatim>\<open>PortBindings\<close>, \<^verbatim>\<open>ExposedPorts\<close>) is an association list in the order of the literal;
  the empty object \<^verbatim>\<open>{}\<close> is \<open>()\<close>.
\<close>

record portBinding =
  HostPort :: string

record hostConfig =
  NetworkMode :: "string option"
  Binds :: "string list option"
  PortBindings :: "(string \<times> portBinding list) list option"

record config =
  image :: string
  name :: string
  Env :: "string list option"
  HostConfig :: hostConfig
  ExposedPorts :: "(string \<times> unit) list option"

section \<open>Template literals\<close>

text \<open>
  \<^verbatim>\<open>${n}\<close> for a number: the decimal digits. The counter is a count of builds, a natural
  number; JavaScript prints an integer below \<open>10\<^sup>2\<^sup>1\<close> in exactly this way.
\<close>

fun numberToString :: "nat \<Rightarrow> string" where
  "numberToString n =
     (if n < 10 then [''0123456789'' ! n]
      else numberToString (n div 10) @ [''0123456789'' ! (n mod 10)])"

declare numberToString.simps [simp del]

section \<open>The deployment record and the container config generator\<close>

definition createRemoteObj :: "string \<Rightarrow> string \<Rightarrow> remoteObj" where
  "createRemoteObj cleanName' basePath' =
     \<lparr> cleanName = cleanName',
       basePath = basePath',
       machine = ''dockdev-'' @ cleanName',
       ipAddress = '''',
       containers = [],
       counter = 0,
       status = 0 \<rparr>"

definition setRemoteServerParams :: "container \<Rightarrow> remoteObj \<Rightarrow> config" where
  "setRemoteServerParams container remoteObj =
     \<lparr> image = container.image container,
       name = container.name container,
       Env = Some [''VIRTUAL_HOST='' @ ipAddress remoteObj],
       HostConfig = \<lparr> NetworkMode = Some (container.cleanName container),
                      Binds = None, PortBindings = None \<rparr>,
       ExposedPorts = None \<rparr>"

definition setRemoteDbs :: "container \<Rightarrow> config" where
  "setRemoteDbs container =
     \<lparr> image = container.image container,
       name = container.name container,
       Env = None,
       HostConfig = \<lparr> NetworkMode = Some (container.cleanName container),
                      Binds = None, PortBindings = None \<rparr>,
       ExposedPorts = None \<rparr>"

definition setProxyParams :: "container \<Rightarrow> config" where
  "setProxyParams container =
     \<lparr> image = container.image container,
       name = container.name container,
       Env = None,
       HostConfig = \<lparr> NetworkMode = None,
                      Binds = Some [''/var/run/docker.sock:/tmp/docker.sock:ro''],
                      PortBindings = Some [(''80/tcp'', [\<lparr> HostPort = ''80'' \<rparr>])] \<rparr>,
       ExposedPorts = Some [(''80/tcp'', ())] \<rparr>"

definition remoteServerObj :: "remoteObj \<Rightarrow> container" where
  "remoteServerObj remoteObj =
     \<lparr> container.cleanName = remoteObj.cleanName remoteObj,
       container.image = ''dockdev/'' @ remoteObj.cleanName remoteObj @ '':''
                 @ numberToString (counter remoteObj),
       dockerId = '''',
       container.name = ''server'' @ numberToString (counter remoteObj),
       server = True,
       nginx = None,
       container.status = ''pending'',
       container.machine = Some (remoteObj.machine remoteObj) \<rparr>"

definition getRemoteConfig :: "container \<Rightarrow> remoteObj \<Rightarrow> config" where
  "getRemoteConfig container remoteObj =
     (if container.server container then setRemoteServerParams container remoteObj
      else if nginx container = Some True then setProxyParams container
      else setRemoteDbs container)"

section \<open>Errors, external collaborators and coroutines\<close>

text \<open>
  Modelled from the spec: the constants of \<^verbatim>\<open>appLevel/errorMsgs\<close> are imported by
  \<^verbatim>\<open>deploy.js\<close> but declared elsewhere; they are the four domain errors of the error
  taxonomy, taken as distinct tokens. \<open>TypeError\<close> is what reading a property of
  \<^verbatim>\<open>undefined\<close> throws, and \<open>Failure\<close> is any other value an imported function throws or
  rejects with.
\<close>

datatype err =
    FAILED_TO_CREATE_DOCKERFILE
  | FAILED_TO_SYNC_TO_REMOTE
  | FAILED_TO_BUILD_SERVER_IMAGE
  | NO_DOTOKEN
  | TypeError
  | Failure string

text \<open>The values the imported functions hand back, with the keys \<^verbatim>\<open>deploy.js\<close> reads.\<close>

record configFile =
  DOToken :: "string option"

record machineInfo =
  IPAddress :: string

record dockCont =
  Id :: string

text \<open>
  The imported functions are parameters: for each one, the outcome of a call on given
  arguments, \<open>Inl\<close> when the call throws (or its promise rejects). What
  \<^verbatim>\<open>inspect\<close> resolves to, the rsync arguments and the project object are opaque to
  \<^verbatim>\<open>deploy.js\<close>, hence type parameters; \<^verbatim>\<open>defaultConfig.remoteDest\<close> is a constant and
  \<^verbatim>\<open>defaultConfig.configPath()\<close> a call without arguments.
\<close>

record ('meta, 'z, 'args, 'proj) env =
  writeFile :: "string \<Rightarrow> string \<Rightarrow> err + unit"
  cleanFilePath :: "string \<Rightarrow> err + string"
  selectSSHandIP :: "'meta \<Rightarrow> err + 'z machineInfo_scheme"
  createRemoteRsyncArgs :: "string \<Rightarrow> string \<Rightarrow> 'z machineInfo_scheme \<Rightarrow> bool \<Rightarrow> err + 'args"
  rsync :: "'args \<Rightarrow> err + unit"
  remoteDest :: string
  configPath :: "err + string"
  inspect :: "string \<Rightarrow> err + 'meta"
  createMachine :: "string list \<Rightarrow> err + unit"
  containerCreate :: "string \<Rightarrow> config \<Rightarrow> err + dockCont"
  readConfig :: "string \<Rightarrow> err + configFile"
  loadProject :: "string \<Rightarrow> err + 'proj"
  writeProj :: "'proj \<Rightarrow> err + unit"
  createRemoteNetwork :: "remoteObj \<Rightarrow> err + unit"

text \<open>The asynchronous calls a coroutine yields on, recorded in the order they are made.\<close>

datatype ('args, 'proj) effect =
    WriteFile string string
  | Inspect string
  | Rsync 'args
  | ReadConfig string
  | LoadProject string
  | CreateMachine "string list"
  | WriteProj 'proj
  | CreateRemoteNetwork remoteObj
  | ContainerCreate string config

text \<open>
  A coroutine \<^verbatim>\<open>co(function *g(...) {...})\<close> runs to a promise: it is modelled by how the
  promise settles (\<open>Inl\<close> rejected, \<open>Inr\<close> resolved) together with the calls made on the
  way. \<open>yield\<close> makes a call and resumes with its value, or throws its rejection at
  the point of the \<^verbatim>\<open>yield\<close>; \<open>attempt\<close> is a synchronous call that may throw.
\<close>

type_synonym ('x, 'a) co = "(err + 'a) \<times> 'x list"

definition return :: "'a \<Rightarrow> ('x, 'a) co" where
  "return a = (Inr a, [])"

definition throw :: "err \<Rightarrow> ('x, 'a) co" where
  "throw e = (Inl e, [])"

definition attempt :: "err + 'a \<Rightarrow> ('x, 'a) co" where
  "attempt outcome = (outcome, [])"

definition yield :: "'x \<Rightarrow> err + 'a \<Rightarrow> ('x, 'a) co" where
  "yield call outcome = (outcome, [call])"

definition bind :: "('x, 'a) co \<Rightarrow> ('a \<Rightarrow> ('x, 'b) co) \<Rightarrow> ('x, 'b) co" where
  "bind m f =
     (case m of
        (Inl e, calls) \<Rightarrow> (Inl e, calls)
      | (Inr a, calls) \<Rightarrow> (case f a of (r, calls') \<Rightarrow> (r, calls @ calls')))"

definition try_catch :: "('x, 'a) co \<Rightarrow> (err \<Rightarrow> ('x, 'a) co) \<Rightarrow> ('x, 'a) co" where
  "try_catch m handler =
     (case m of
        (Inl e, calls) \<Rightarrow> (case handler e of (r, calls') \<Rightarrow> (r, calls @ calls'))
      | (Inr a, calls) \<Rightarrow> (Inr a, calls))"

section \<open>The pipeline steps\<close>

definition createDroplet ::
  "('meta, 'z, 'args, 'proj) env \<Rightarrow> string \<Rightarrow> string \<Rightarrow> string list
     \<Rightarrow> (('args, 'proj) effect, unit) co" where
  \<open>createDroplet env dropletName token args =
     (let argv = [''--driver digitalocean'', ''--digitalocean-access-token='' @ token]
                   @ args @ [dropletName]
      in yield (CreateMachine argv) (createMachine env argv))\<close>

definition createDockerfile ::
  "('meta, 'z, 'args, 'proj) env \<Rightarrow> container list \<Rightarrow> string
     \<Rightarrow> (('args, 'proj) effect, bool) co" where
  \<open>createDockerfile env containers' basePath' =
     try_catch
       (case filter container.server containers' of
          [] \<Rightarrow> throw TypeError
        | server' # _ \<Rightarrow>
            (let dockerFile =
                   ''From '' @ container.image server' @ ''\<newline>'' @
                   ''COPY . /app\<newline>'' @
                   ''WORKDIR /app\<newline>'' @
                   ''RUN ["npm", "install", "--production"]\<newline>'' @
                   ''EXPOSE 3000\<newline>'' @
                   ''CMD ["npm", "start"]''
             in bind (yield (WriteFile (basePath' @ ''/Dockerfile'') dockerFile)
                        (writeFile env (basePath' @ ''/Dockerfile'') dockerFile))
                  (\<lambda>_. return True)))
       (\<lambda>e. throw FAILED_TO_CREATE_DOCKERFILE)\<close>

definition syncFilesToRemote ::
  "('meta, 'z, 'args, 'proj) env \<Rightarrow> remoteObj \<Rightarrow> bool
     \<Rightarrow> (('args, 'proj) effect, remoteObj) co" where
  \<open>syncFilesToRemote env remoteObj local =
     bind (attempt (cleanFilePath env (basePath remoteObj))) (\<lambda>cleanPath.
     let dest = (if local then ''/home/docker'' else remoteDest env) in
     try_catch
       (bind (yield (Inspect (remoteObj.machine remoteObj))
                (inspect env (remoteObj.machine remoteObj))) (\<lambda>inspected.
        bind (attempt (selectSSHandIP env inspected)) (\<lambda>machineInfo.
        bind (attempt (createRemoteRsyncArgs env (cleanPath @ ''/*'') dest machineInfo local))
          (\<lambda>remoteRsyncArgs.
        bind (yield (Rsync remoteRsyncArgs) (rsync env remoteRsyncArgs)) (\<lambda>_.
        return (remoteObj\<lparr>ipAddress := IPAddress machineInfo\<rparr>))))))
       (\<lambda>e. throw FAILED_TO_SYNC_TO_REMOTE))\<close>

definition initRemote ::
  "('meta, 'z, 'args, 'proj) env \<Rightarrow> string \<Rightarrow> string
     \<Rightarrow> (('args, 'proj) effect, remoteObj) co" where
  \<open>initRemote env cleanName' path =
     bind (attempt (configPath env)) (\<lambda>configPath'.
     bind (yield (ReadConfig configPath') (readConfig env configPath')) (\<lambda>readConfigFile.
     case DOToken readConfigFile of
       None \<Rightarrow> throw NO_DOTOKEN
     | Some DOToken' \<Rightarrow>
         if DOToken' = '''' then throw NO_DOTOKEN
         else
           (let remoteObj = createRemoteObj cleanName' path in
            bind (yield (LoadProject path) (loadProject env path)) (\<lambda>projObj.
            bind (createDroplet env (remoteObj.machine remoteObj) DOToken' []) (\<lambda>_.
            bind (yield (WriteProj projObj) (writeProj env projObj)) (\<lambda>_.
            bind (yield (CreateRemoteNetwork remoteObj) (createRemoteNetwork env remoteObj))
              (\<lambda>_.
            return remoteObj)))))))\<close>

definition createRemoteContainer ::
  "('meta, 'z, 'args, 'proj) env \<Rightarrow> container \<Rightarrow> remoteObj
     \<Rightarrow> (('args, 'proj) effect, container) co" where
  \<open>createRemoteContainer env container remoteObj =
     (let config = getRemoteConfig container remoteObj in
      bind (yield (ContainerCreate (remoteObj.machine remoteObj) config)
              (containerCreate env (remoteObj.machine remoteObj) config)) (\<lambda>dockCont.
      return (container\<lparr>dockerId := Id dockCont,
                        container.machine := Some (remoteObj.machine remoteObj)\<rparr>)))\<close>

section \<open>Appending the proxy container\<close>

text \<open>
  \<^verbatim>\<open>addNginxContainer\<close> assigns to two properties of an object and builds a new array next
  to the one it is given, so it is modelled on a store: an object or an array is the
  index of its cell, allocation appends a cell, and an assignment to a property
  overwrites the object's cell. The elements of an array are references to objects.
  The only object assigned to is the one \<^verbatim>\<open>containerObj\<close> has just returned.
\<close>

type_synonym ref = nat

record heap =
  objects :: "container list"
  arrays :: "ref list list"

definition elements :: "heap \<Rightarrow> ref \<Rightarrow> container list" where
  "elements h a = map (\<lambda>obj. objects h ! obj) (arrays h ! a)"

definition setProperty :: "ref \<Rightarrow> (container \<Rightarrow> container) \<Rightarrow> heap \<Rightarrow> heap" where
  "setProperty obj assign h = h\<lparr>objects := (objects h)[obj := assign (objects h ! obj)]\<rparr>"

text \<open>
  Modelled from the spec: \<^verbatim>\<open>containerObj\<close> of \<^verbatim>\<open>projLevel/containerMgmt\<close> is imported by
  \<^verbatim>\<open>deploy.js\<close> but defined elsewhere. It builds a new Container entry of the data model:
  \<open>cleanName\<close> inherited from the project, the role's source image as \<open>image\<close>, the
  role flag \<open>server\<close> as given, \<open>dockerId\<close> empty until creation succeeds, \<open>status\<close>
  pending, and neither \<open>nginx\<close> nor \<open>machine\<close>, which are set later.
\<close>

definition containerObj :: "string \<Rightarrow> imageObj \<Rightarrow> heap \<Rightarrow> ref \<times> heap" where
  "containerObj cleanName' imageObj h =
     (length (objects h),
      h\<lparr>objects := objects h @
         [\<lparr> container.cleanName = cleanName',
            container.image = imageObj.name imageObj,
            dockerId = '''',
            container.name = imageObj.name imageObj,
            container.server = imageObj.server imageObj,
            nginx = None,
            container.status = ''pending'',
            container.machine = None \<rparr>]\<rparr>)"

text \<open>
  \<^verbatim>\<open>[...containers, nginx]\<close>: a new array holding the elements of \<^verbatim>\<open>containers\<close> and then
  \<^verbatim>\<open>nginx\<close>. Spreading a value that is no array throws.
\<close>

definition spreadAppend :: "ref \<Rightarrow> ref \<Rightarrow> heap \<Rightarrow> (err + ref) \<times> heap" where
  "spreadAppend containers' obj h =
     (if containers' < length (arrays h)
      then (Inr (length (arrays h)), h\<lparr>arrays := arrays h @ [arrays h ! containers' @ [obj]]\<rparr>)
      else (Inl TypeError, h))"

definition addNginxContainer :: "ref \<Rightarrow> remoteObj \<Rightarrow> heap \<Rightarrow> (err + ref) \<times> heap" where
  "addNginxContainer containers' remoteObj h =
     (let (nginx', h1) = containerObj (remoteObj.cleanName remoteObj)
                           \<lparr> imageObj.name = ''jwilder/nginx-proxy'',
                             imageObj.server = False \<rparr> h;
          h2 = setProperty nginx' (\<lambda>obj. obj\<lparr>nginx := Some True\<rparr>) h1;
          h3 = setProperty nginx' (\<lambda>obj. obj\<lparr>container.name := ''proxy''\<rparr>) h2
      in spreadAppend containers' nginx' h3)"

section \<open>A concrete environment\<close>

text \<open>
  An environment in which every imported function succeeds, used to run the steps on
  concrete inputs: \<^verbatim>\<open>inspect\<close> resolves to the address of the machine, and the rsync
  arguments are source and destination.
\<close>

definition example_env :: "(string, unit, string, string) env" where
  "example_env =
     \<lparr> writeFile = (\<lambda>path content. Inr ()),
       cleanFilePath = (\<lambda>path. Inr path),
       selectSSHandIP = (\<lambda>meta. Inr \<lparr> IPAddress = meta \<rparr>),
       createRemoteRsyncArgs = (\<lambda>source dest info local. Inr (source @ '' '' @ dest)),
       rsync = (\<lambda>args. Inr ()),
       remoteDest = ''/root'',
       configPath = Inr ''/home/me/.dockdevconfig'',
       inspect = (\<lambda>machineName. Inr ''203.0.113.5''),
       createMachine = (\<lambda>argv. Inr ()),
       containerCreate = (\<lambda>machineName config. Inr \<lparr> Id = ''4f2a91'' \<rparr>),
       readConfig = (\<lambda>path. Inr \<lparr> DOToken = Some ''do-token'' \<rparr>),
       loadProject = (\<lambda>path. Inr path),
       writeProj = (\<lambda>projObj. Inr ()),
       createRemoteNetwork = (\<lambda>remoteObj. Inr ()) \<rparr>"

text \<open>
  Two deployment records of different projects and three container entries of the first
  project, one for each role.
\<close>

definition demo_record :: remoteObj where
  "demo_record =
     \<lparr> cleanName = ''demo'', basePath = ''/home/me/demo'', machine = ''dockdev-demo'',
       ipAddress = ''203.0.113.5'', containers = [], counter = 2, status = 0 \<rparr>"

definition shop_record :: remoteObj where
  "shop_record =
     \<lparr> cleanName = ''shop'', basePath = ''/home/me/shop'', machine = ''dockdev-shop'',
       ipAddress = ''198.51.100.9'', containers = [], counter = 0, status = 0 \<rparr>"

definition demo_server :: container where
  "demo_server =
     \<lparr> container.cleanName = ''demo'', container.image = ''node:8'', dockerId = '''',
       container.name = ''server2'', container.server = True, nginx = None,
       container.status = ''pending'', container.machine = None \<rparr>"

definition demo_db :: container where
  "demo_db =
     \<lparr> container.cleanName = ''demo'', container.image = ''mongo'', dockerId = '''',
       container.name = ''db'', container.server = False, nginx = None,
       container.status = ''pending'', container.machine = None \<rparr>"

definition demo_proxy :: container where
  "demo_proxy =
     \<lparr> container.cleanName = ''demo'', container.image = ''jwilder/nginx-proxy'',
       dockerId = '''', container.name = ''proxy'', container.server = False,
       nginx = Some True, container.status = ''pending'', container.machine = None \<rparr>"

section \<open>Properties of the container config generator\<close>

text \<open>
  C1: for a container with \<open>server = true\<close> and a deployment record, the generated
  config has \<open>HostConfig.NetworkMode\<close> equal to the record's \<open>cleanName\<close> and an
  \<open>Env\<close> list of exactly one entry, \<^verbatim>\<open>VIRTUAL_HOST=\<close> followed by the record's
  \<open>ipAddress\<close>. The container is an entry of the record: by the data model its
  \<open>cleanName\<close> is inherited from the owning record, as \<^verbatim>\<open>remoteServerObj\<close> and
  \<^verbatim>\<open>addNginxContainer\<close> build it, and \<^verbatim>\<open>setRemoteServerParams\<close> reads the network mode
  from the container's copy.
\<close>

theorem getRemoteConfig_server:
  assumes "container.server c"
    and "container.cleanName c = remoteObj.cleanName r"
  shows "NetworkMode (HostConfig (getRemoteConfig c r)) = Some (remoteObj.cleanName r)
       \<and> Env (getRemoteConfig c r) = Some [''VIRTUAL_HOST='' @ ipAddress r]"
  using assms by (simp add: getRemoteConfig_def setRemoteServerParams_def)

text \<open>The server entry that \<^verbatim>\<open>remoteServerObj\<close> builds for the record of \<open>demo\<close>.\<close>

theorem getRemoteConfig_server_witness:
  "container.server (remoteServerObj demo_record)
   \<and> container.cleanName (remoteServerObj demo_record) = remoteObj.cleanName demo_record
   \<and> NetworkMode (HostConfig (getRemoteConfig (remoteServerObj demo_record) demo_record))
       = Some ''demo''
   \<and> Env (getRemoteConfig (remoteServerObj demo_record) demo_record)
       = Some [''VIRTUAL_HOST=203.0.113.5'']"
proof -
  have s: "container.server (remoteServerObj demo_record)"
    and n: "container.cleanName (remoteServerObj demo_record) = remoteObj.cleanName demo_record"
    by (simp_all add: remoteServerObj_def)
  from getRemoteConfig_server [OF s n] s n show ?thesis
    by (simp add: demo_record_def)
qed

text \<open>
  C8: for a container with \<open>nginx = true\<close> and \<open>server = false\<close> and any deployment
  record, the generated config declares the exposed port \<^verbatim>\<open>80/tcp\<close>, binds host port
  \<^verbatim>\<open>80\<close> to \<^verbatim>\<open>80/tcp\<close> in \<open>HostConfig.PortBindings\<close>, and mounts
  \<^verbatim>\<open>/var/run/docker.sock\<close> at \<^verbatim>\<open>/tmp/docker.sock\<close> read-only.
\<close>

theorem getRemoteConfig_proxy:
  assumes "nginx c = Some True" and "\<not> container.server c"
  shows "ExposedPorts (getRemoteConfig c r) = Some [(''80/tcp'', ())]
       \<and> PortBindings (HostConfig (getRemoteConfig c r))
           = Some [(''80/tcp'', [\<lparr> HostPort = ''80'' \<rparr>])]
       \<and> Binds (HostConfig (getRemoteConfig c r))
           = Some [''/var/run/docker.sock:/tmp/docker.sock:ro'']"
  using assms by (simp add: getRemoteConfig_def setProxyParams_def)

theorem getRemoteConfig_proxy_witness:
  "nginx demo_proxy = Some True \<and> container.server demo_proxy = False
   \<and> ExposedPorts (getRemoteConfig demo_proxy demo_record) = Some [(''80/tcp'', ())]
   \<and> PortBindings (HostConfig (getRemoteConfig demo_proxy demo_record))
       = Some [(''80/tcp'', [\<lparr> HostPort = ''80'' \<rparr>])]
   \<and> Binds (HostConfig (getRemoteConfig demo_proxy demo_record))
       = Some [''/var/run/docker.sock:/tmp/docker.sock:ro'']"
proof -
  have n: "nginx demo_proxy = Some True" and s: "\<not> container.server demo_proxy"
    by (simp_all add: demo_proxy_def)
  from getRemoteConfig_proxy [OF n s, of demo_record] show ?thesis
    by (simp add: n s)
qed

text \<open>
  C9: for a deployment record with \<open>counter = 2\<close> and \<open>cleanName = "demo"\<close>,
  \<^verbatim>\<open>remoteServerObj\<close> yields the entry with image \<^verbatim>\<open>dockdev/demo:2\<close>, name
  \<^verbatim>\<open>server2\<close>, \<open>server = true\<close>, status \<^verbatim>\<open>pending\<close> and the record's machine (and, beyond
  the claim, the record's \<open>cleanName\<close>, an empty \<open>dockerId\<close> and no \<open>nginx\<close> key).
\<close>

theorem remoteServerObj_demo:
  assumes "counter r = 2" and "remoteObj.cleanName r = ''demo''"
  shows "remoteServerObj r =
     \<lparr> container.cleanName = ''demo'', container.image = ''dockdev/demo:2'', dockerId = '''',
       container.name = ''server2'', container.server = True, nginx = None,
       container.status = ''pending'', container.machine = Some (remoteObj.machine r) \<rparr>"
  using assms by (simp add: remoteServerObj_def numberToString.simps)

theorem remoteServerObj_demo_witness:
  "counter demo_record = 2 \<and> remoteObj.cleanName demo_record = ''demo''
   \<and> remoteServerObj demo_record =
     \<lparr> container.cleanName = ''demo'', container.image = ''dockdev/demo:2'', dockerId = '''',
       container.name = ''server2'', container.server = True, nginx = None,
       container.status = ''pending'', container.machine = Some ''dockdev-demo'' \<rparr>"
proof -
  have c: "counter demo_record = 2" and n: "remoteObj.cleanName demo_record = ''demo''"
    by (simp_all add: demo_record_def)
  from remoteServerObj_demo [OF c n] show ?thesis
    by (simp add: c n demo_record_def)
qed

section \<open>Properties of the pipeline steps\<close>

lemmas co_defs = return_def throw_def attempt_def yield_def bind_def try_catch_def

text \<open>
  C2 (amended): when any of the steps of \<^verbatim>\<open>syncFilesToRemote\<close> fails, the promise is
  rejected and no record is returned; when the failure arises inside the handler, that
  is in machine inspection, the extraction of SSH target and IP, the construction of
  the rsync arguments or the rsync run (path normalization having succeeded), it is
  rejected with the sync error.
\<close>

theorem syncFilesToRemote_failure:
  assumes "\<not> (\<exists>p meta mi args.
             cleanFilePath env (basePath r) = Inr p
           \<and> inspect env (remoteObj.machine r) = Inr meta
           \<and> selectSSHandIP env meta = Inr mi
           \<and> createRemoteRsyncArgs env (p @ ''/*'')
                (if local then ''/home/docker'' else remoteDest env) mi local = Inr args
           \<and> rsync env args = Inr ())"
  shows "(\<exists>e. fst (syncFilesToRemote env r local) = Inl e)
       \<and> ((\<exists>p. cleanFilePath env (basePath r) = Inr p)
            \<longrightarrow> fst (syncFilesToRemote env r local) = Inl FAILED_TO_SYNC_TO_REMOTE)"
proof (cases "cleanFilePath env (basePath r)")
  case (Inl e)
  then show ?thesis
    by (simp add: syncFilesToRemote_def co_defs)
next
  case (Inr p)
  with assms have "fst (syncFilesToRemote env r local) = Inl FAILED_TO_SYNC_TO_REMOTE"
    by (cases local) (auto simp: syncFilesToRemote_def co_defs Let_def split: sum.splits)
  then show ?thesis
    by simp
qed

text \<open>The rsync run fails on the machine of \<open>demo\<close>; everything before it succeeds.\<close>

theorem syncFilesToRemote_failure_witness:
  "cleanFilePath (example_env\<lparr>rsync := (\<lambda>args. Inl (Failure ''rsync exited with 23''))\<rparr>)
       (basePath demo_record) = Inr ''/home/me/demo''
   \<and> fst (syncFilesToRemote
             (example_env\<lparr>rsync := (\<lambda>args. Inl (Failure ''rsync exited with 23''))\<rparr>)
             demo_record False) = Inl FAILED_TO_SYNC_TO_REMOTE"
proof -
  let ?env = "example_env\<lparr>rsync := (\<lambda>args. Inl (Failure ''rsync exited with 23''))\<rparr>"
  have c: "cleanFilePath ?env (basePath demo_record) = Inr ''/home/me/demo''"
    by (simp add: example_env_def demo_record_def)
  have f: "\<not> (\<exists>p meta mi args.
             cleanFilePath ?env (basePath demo_record) = Inr p
           \<and> inspect ?env (remoteObj.machine demo_record) = Inr meta
           \<and> selectSSHandIP ?env meta = Inr mi
           \<and> createRemoteRsyncArgs ?env (p @ ''/*'')
                (if False then ''/home/docker'' else remoteDest ?env) mi False = Inr args
           \<and> rsync ?env args = Inr ())"
    by simp
  from syncFilesToRemote_failure [OF f] c show ?thesis
    by blast
qed

text \<open>
  The claim as stated fails for step 1: \<^verbatim>\<open>cleanFilePath\<close> is called before the
  \<^verbatim>\<open>try\<close> block is entered, so what it throws rejects the promise as it is, not as the
  sync error.
\<close>

theorem syncFilesToRemote_failure_counterexample:
  "cleanFilePath
       (example_env\<lparr>cleanFilePath := (\<lambda>path. Inl (Failure ''path normalization failed''))\<rparr>)
       (basePath demo_record) = Inl (Failure ''path normalization failed'')
   \<and> fst (syncFilesToRemote
       (example_env\<lparr>cleanFilePath := (\<lambda>path. Inl (Failure ''path normalization failed''))\<rparr>)
       demo_record False) = Inl (Failure ''path normalization failed'')
   \<and> fst (syncFilesToRemote
       (example_env\<lparr>cleanFilePath := (\<lambda>path. Inl (Failure ''path normalization failed''))\<rparr>)
       demo_record False) \<noteq> Inl FAILED_TO_SYNC_TO_REMOTE"
  by (simp add: syncFilesToRemote_def co_defs example_env_def)

text \<open>
  C3: when path normalization, inspection, the extraction of SSH target and IP, the
  construction of the rsync arguments and the rsync run succeed, \<^verbatim>\<open>syncFilesToRemote\<close>
  resolves to a record whose \<open>ipAddress\<close> is the extracted IP address and whose other
  fields are those of the record it was given.
\<close>

theorem syncFilesToRemote_success:
  assumes "cleanFilePath env (basePath r) = Inr p"
    and "inspect env (remoteObj.machine r) = Inr meta"
    and "selectSSHandIP env meta = Inr mi"
    and "createRemoteRsyncArgs env (p @ ''/*'')
           (if local then ''/home/docker'' else remoteDest env) mi local = Inr args"
    and "rsync env args = Inr ()"
  shows "\<exists>r'. fst (syncFilesToRemote env r local) = Inr r'
           \<and> ipAddress r' = IPAddress mi
           \<and> remoteObj.cleanName r' = remoteObj.cleanName r
           \<and> basePath r' = basePath r
           \<and> remoteObj.machine r' = remoteObj.machine r
           \<and> containers r' = containers r
           \<and> counter r' = counter r
           \<and> remoteObj.status r' = remoteObj.status r"
  using assms
  by (simp add: syncFilesToRemote_def co_defs Let_def)

text \<open>
  The record of \<open>shop\<close>, whose \<open>ipAddress\<close> is another one before the step, synchronized
  to the remote destination.
\<close>

theorem syncFilesToRemote_success_witness:
  "cleanFilePath example_env (basePath shop_record) = Inr ''/home/me/shop''
   \<and> inspect example_env (remoteObj.machine shop_record) = Inr ''203.0.113.5''
   \<and> selectSSHandIP example_env ''203.0.113.5'' = Inr \<lparr> IPAddress = ''203.0.113.5'' \<rparr>
   \<and> createRemoteRsyncArgs example_env ''/home/me/shop/*'' ''/root''
        \<lparr> IPAddress = ''203.0.113.5'' \<rparr> False = Inr ''/home/me/shop/* /root''
   \<and> rsync example_env ''/home/me/shop/* /root'' = Inr ()
   \<and> fst (syncFilesToRemote example_env shop_record False) =
        Inr \<lparr> cleanName = ''shop'', basePath = ''/home/me/shop'', machine = ''dockdev-shop'',
              ipAddress = ''203.0.113.5'', containers = [], counter = 0, status = 0 \<rparr>"
proof -
  have 1: "cleanFilePath example_env (basePath shop_record) = Inr ''/home/me/shop''"
    and 2: "inspect example_env (remoteObj.machine shop_record) = Inr ''203.0.113.5''"
    and 3: "selectSSHandIP example_env ''203.0.113.5'' = Inr \<lparr> IPAddress = ''203.0.113.5'' \<rparr>"
    and 4: "createRemoteRsyncArgs example_env (''/home/me/shop'' @ ''/*'')
              (if False then ''/home/docker'' else remoteDest example_env)
              \<lparr> IPAddress = ''203.0.113.5'' \<rparr> False = Inr ''/home/me/shop/* /root''"
    and 5: "rsync example_env ''/home/me/shop/* /root'' = Inr ()"
    by (simp_all add: example_env_def shop_record_def)
  from syncFilesToRemote_success [OF 1 2 3 4 5]
  obtain r' where r': "fst (syncFilesToRemote example_env shop_record False) = Inr r'"
    "ipAddress r' = ''203.0.113.5''"
    "remoteObj.cleanName r' = remoteObj.cleanName shop_record"
    "basePath r' = basePath shop_record"
    "remoteObj.machine r' = remoteObj.machine shop_record"
    "containers r' = containers shop_record"
    "counter r' = counter shop_record"
    "remoteObj.status r' = remoteObj.status shop_record"
    by auto
  then have "r' = \<lparr> cleanName = ''shop'', basePath = ''/home/me/shop'',
      machine = ''dockdev-shop'', ipAddress = ''203.0.113.5'', containers = [], counter = 0,
      status = 0 \<rparr>"
    by (cases r') (simp add: shop_record_def)
  with r'(1) 1 2 3 5 show ?thesis
    by (simp add: example_env_def)
qed

text \<open>
  C4: when the configuration file is read and holds no \<open>DOToken\<close>, \<^verbatim>\<open>initRemote\<close> is
  rejected with the missing-credential error, and the only call it has made is the read
  of the configuration file: no project is loaded, no machine created, no project
  written and no network created.
\<close>

theorem initRemote_no_token:
  assumes "configPath env = Inr p"
    and "readConfig env p = Inr cfg"
    and "DOToken cfg = None"
  shows "initRemote env cleanName' path = (Inl NO_DOTOKEN, [ReadConfig p])"
  using assms by (simp add: initRemote_def co_defs)

theorem initRemote_no_token_witness:
  "configPath (example_env\<lparr>readConfig := (\<lambda>path. Inr \<lparr> DOToken = None \<rparr>)\<rparr>)
     = Inr ''/home/me/.dockdevconfig''
   \<and> readConfig (example_env\<lparr>readConfig := (\<lambda>path. Inr \<lparr> DOToken = None \<rparr>)\<rparr>)
       ''/home/me/.dockdevconfig'' = Inr \<lparr> DOToken = None \<rparr>
   \<and> initRemote (example_env\<lparr>readConfig := (\<lambda>path. Inr \<lparr> DOToken = None \<rparr>)\<rparr>)
       ''demo'' ''/home/me/demo''
     = (Inl NO_DOTOKEN, [ReadConfig ''/home/me/.dockdevconfig''])"
proof -
  let ?env = "example_env\<lparr>readConfig := (\<lambda>path. Inr \<lparr> DOToken = None \<rparr>)\<rparr>"
  have p: "configPath ?env = Inr ''/home/me/.dockdevconfig''"
    and c: "readConfig ?env ''/home/me/.dockdevconfig'' = Inr \<lparr> DOToken = None \<rparr>"
    and t: "DOToken \<lparr> DOToken = None \<rparr> = None"
    by (simp_all add: example_env_def)
  from initRemote_no_token [OF p c t, of "''demo''" "''/home/me/demo''"] p c show ?thesis
    by simp
qed

text \<open>
  C5: for a container list with at least one container with \<open>server = true\<close>,
  \<^verbatim>\<open>createDockerfile\<close> selects the first of them in list order and makes exactly one
  call: the write, to \<^verbatim>\<open>Dockerfile\<close> under \<open>basePath\<close>, of the fixed template whose first
  line is \<^verbatim>\<open>From\<close> and that container's image; with the write done it resolves to
  \<open>true\<close>.
\<close>

theorem createDockerfile_server:
  assumes "\<exists>c \<in> set containers'. container.server c"
  shows \<open>\<exists>pre s post.
           containers' = pre @ s # post
         \<and> (\<forall>c \<in> set pre. \<not> container.server c) \<and> container.server s
         \<and> (let dockerFile =
                   ''From '' @ container.image s @
                   ''\<newline>COPY . /app\<newline>WORKDIR /app\<newline>RUN ["npm", "install", "--production"]\<newline>EXPOSE 3000\<newline>CMD ["npm", "start"]''
             in snd (createDockerfile env containers' basePath')
                  = [WriteFile (basePath' @ ''/Dockerfile'') dockerFile]
              \<and> (writeFile env (basePath' @ ''/Dockerfile'') dockerFile = Inr ()
                   \<longrightarrow> fst (createDockerfile env containers' basePath') = Inr True))\<close>
proof -
  from assms obtain pre s post
    where split: "containers' = pre @ s # post" "container.server s"
      "\<forall>c \<in> set pre. \<not> container.server c"
    using split_list_first_prop [of containers' container.server] by blast
  then have first: "filter container.server containers' = s # filter container.server post"
    by (simp add: filter_empty_conv)
  let ?dockerFile = \<open>''From '' @ container.image s @
    ''\<newline>COPY . /app\<newline>WORKDIR /app\<newline>RUN ["npm", "install", "--production"]\<newline>EXPOSE 3000\<newline>CMD ["npm", "start"]''\<close>
  have "snd (createDockerfile env containers' basePath')
          = [WriteFile (basePath' @ ''/Dockerfile'') ?dockerFile]"
    using first by (simp add: createDockerfile_def co_defs Let_def split: sum.splits)
  moreover have "fst (createDockerfile env containers' basePath') = Inr True"
    if "writeFile env (basePath' @ ''/Dockerfile'') ?dockerFile = Inr ()"
    using first that by (simp add: createDockerfile_def co_defs Let_def)
  ultimately show ?thesis
    unfolding Let_def using split by blast
qed

text \<open>
  A database, then the server on \<^verbatim>\<open>node:8\<close>, then a second entry marked as server: the
  Dockerfile is built from the first server.
\<close>

theorem createDockerfile_server_witness:
  \<open>container.server demo_server
   \<and> createDockerfile example_env
        [demo_db, demo_server, demo_server\<lparr>container.image := ''node:6''\<rparr>] ''/home/me/demo''
     = (Inr True,
        [WriteFile ''/home/me/demo/Dockerfile''
           ''From node:8\<newline>COPY . /app\<newline>WORKDIR /app\<newline>RUN ["npm", "install", "--production"]\<newline>EXPOSE 3000\<newline>CMD ["npm", "start"]''])\<close>
proof -
  let ?cs = "[demo_db, demo_server, demo_server\<lparr>container.image := ''node:6''\<rparr>]"
  have s: "container.server demo_server" and d: "\<not> container.server demo_db"
    by (simp_all add: demo_server_def demo_db_def)
  then have "\<exists>c \<in> set ?cs. container.server c"
    by simp
  from createDockerfile_server [OF this, of example_env "''/home/me/demo''"]
  obtain pre s post where split: "?cs = pre @ s # post"
      "\<forall>c \<in> set pre. \<not> container.server c" "container.server s"
    and run: \<open>snd (createDockerfile example_env ?cs ''/home/me/demo'')
                = [WriteFile (''/home/me/demo'' @ ''/Dockerfile'')
                     (''From '' @ container.image s @
                      ''\<newline>COPY . /app\<newline>WORKDIR /app\<newline>RUN ["npm", "install", "--production"]\<newline>EXPOSE 3000\<newline>CMD ["npm", "start"]'')]\<close>
      \<open>writeFile example_env (''/home/me/demo'' @ ''/Dockerfile'')
                     (''From '' @ container.image s @
                      ''\<newline>COPY . /app\<newline>WORKDIR /app\<newline>RUN ["npm", "install", "--production"]\<newline>EXPOSE 3000\<newline>CMD ["npm", "start"]'') = Inr ()
         \<longrightarrow> fst (createDockerfile example_env ?cs ''/home/me/demo'') = Inr True\<close>
    unfolding Let_def by blast
  from split s d have "s = demo_server"
    by (auto simp: Cons_eq_append_conv)
  moreover have "container.image demo_server = ''node:8''"
    by (simp add: demo_server_def)
  moreover have "writeFile example_env path content = Inr ()" for path content
    by (simp add: example_env_def)
  ultimately have "fst (createDockerfile example_env ?cs ''/home/me/demo'') = Inr True"
    and \<open>snd (createDockerfile example_env ?cs ''/home/me/demo'')
          = [WriteFile ''/home/me/demo/Dockerfile''
           ''From node:8\<newline>COPY . /app\<newline>WORKDIR /app\<newline>RUN ["npm", "install", "--production"]\<newline>EXPOSE 3000\<newline>CMD ["npm", "start"]'']\<close>
    using run by simp_all
  with s show ?thesis
    by (simp add: prod_eq_iff)
qed

text \<open>
  C10: for a container list without any container with \<open>server = true\<close>,
  \<^verbatim>\<open>createDockerfile\<close> is rejected with the Dockerfile-creation error and has made no
  call, so no file is written.
\<close>

theorem createDockerfile_no_server:
  assumes "\<forall>c \<in> set containers'. \<not> container.server c"
  shows "createDockerfile env containers' basePath' = (Inl FAILED_TO_CREATE_DOCKERFILE, [])"
proof -
  from assms have "filter container.server containers' = []"
    by (simp add: filter_empty_conv)
  then show ?thesis
    by (simp add: createDockerfile_def co_defs)
qed

theorem createDockerfile_no_server_witness:
  "container.server demo_db = False \<and> container.server demo_proxy = False
   \<and> createDockerfile example_env [demo_db, demo_proxy] ''/home/me/demo''
     = (Inl FAILED_TO_CREATE_DOCKERFILE, [])"
proof -
  have d: "\<not> container.server demo_db" and p: "\<not> container.server demo_proxy"
    by (simp_all add: demo_db_def demo_proxy_def)
  then have "\<forall>c \<in> set [demo_db, demo_proxy]. \<not> container.server c"
    by simp
  from createDockerfile_no_server [OF this] d p show ?thesis
    by simp
qed

text \<open>
  C6: when the create call of the container runtime succeeds, \<^verbatim>\<open>createRemoteContainer\<close>
  resolves to an entry whose \<open>dockerId\<close> is the \<open>Id\<close> of the response, whose \<open>machine\<close>
  is the record's machine, and whose other fields are those of the entry it was given.
\<close>

theorem createRemoteContainer_result:
  assumes "containerCreate env (remoteObj.machine r) (getRemoteConfig c r) = Inr created"
  shows "\<exists>c'. fst (createRemoteContainer env c r) = Inr c'
           \<and> dockerId c' = Id created
           \<and> container.machine c' = Some (remoteObj.machine r)
           \<and> container.cleanName c' = container.cleanName c
           \<and> container.image c' = container.image c
           \<and> container.name c' = container.name c
           \<and> container.server c' = container.server c
           \<and> nginx c' = nginx c
           \<and> container.status c' = container.status c"
  using assms by (simp add: createRemoteContainer_def co_defs Let_def)

theorem createRemoteContainer_result_witness:
  "containerCreate example_env (remoteObj.machine demo_record)
       (getRemoteConfig demo_db demo_record) = Inr \<lparr> Id = ''4f2a91'' \<rparr>
   \<and> fst (createRemoteContainer example_env demo_db demo_record) =
       Inr \<lparr> container.cleanName = ''demo'', container.image = ''mongo'', dockerId = ''4f2a91'',
             container.name = ''db'', container.server = False, nginx = None,
             container.status = ''pending'', container.machine = Some ''dockdev-demo'' \<rparr>"
proof -
  have ok: "containerCreate example_env (remoteObj.machine demo_record)
       (getRemoteConfig demo_db demo_record) = Inr \<lparr> Id = ''4f2a91'' \<rparr>"
    by (simp add: example_env_def)
  from createRemoteContainer_result [OF ok]
  obtain c' where c': "fst (createRemoteContainer example_env demo_db demo_record) = Inr c'"
    "dockerId c' = ''4f2a91''"
    "container.machine c' = Some (remoteObj.machine demo_record)"
    "container.cleanName c' = container.cleanName demo_db"
    "container.image c' = container.image demo_db"
    "container.name c' = container.name demo_db"
    "container.server c' = container.server demo_db"
    "nginx c' = nginx demo_db"
    "container.status c' = container.status demo_db"
    by auto
  then have "c' = \<lparr> container.cleanName = ''demo'', container.image = ''mongo'',
      dockerId = ''4f2a91'', container.name = ''db'', container.server = False, nginx = None,
      container.status = ''pending'', container.machine = Some ''dockdev-demo'' \<rparr>"
    by (cases c') (simp add: demo_db_def demo_record_def)
  with c'(1) ok show ?thesis
    by simp
qed

section \<open>Properties of the proxy append\<close>

lemma setProperty_simps:
  "arrays (setProperty obj f h) = arrays h"
  "objects (setProperty obj f h) = (objects h)[obj := f (objects h ! obj)]"
  by (simp_all add: setProperty_def)

text \<open>
  C7: given an array of containers, \<^verbatim>\<open>addNginxContainer\<close> returns a new array, one element
  longer, whose last element has \<open>nginx = true\<close>, \<open>server = false\<close> and the name
  \<^verbatim>\<open>proxy\<close> and whose elements before it are the elements of the given array, unaltered;
  the given array, and every array and object that existed before the call, is as it
  was.
\<close>

theorem addNginxContainer_appends:
  assumes "cs < length (arrays h)"
    and "\<forall>obj \<in> set (arrays h ! cs). obj < length (objects h)"
  shows "\<exists>res h'. addNginxContainer cs r h = (Inr res, h')
           \<and> length (arrays h) \<le> res
           \<and> length (elements h' res) = length (elements h cs) + 1
           \<and> nginx (last (elements h' res)) = Some True
           \<and> container.server (last (elements h' res)) = False
           \<and> container.name (last (elements h' res)) = ''proxy''
           \<and> take (length (elements h cs)) (elements h' res) = elements h cs
           \<and> elements h' cs = elements h cs
           \<and> take (length (arrays h)) (arrays h') = arrays h
           \<and> take (length (objects h)) (objects h') = objects h"
  using assms
  by (simp add: addNginxContainer_def containerObj_def spreadAppend_def setProperty_simps
        elements_def nth_append)

theorem addNginxContainer_appends_witness:
  "addNginxContainer 0 demo_record \<lparr> objects = [demo_db, demo_server], arrays = [[1, 0]] \<rparr>
     = (Inr 1,
        \<lparr> objects = [demo_db, demo_server,
             \<lparr> container.cleanName = ''demo'', container.image = ''jwilder/nginx-proxy'',
               dockerId = '''', container.name = ''proxy'', container.server = False,
               nginx = Some True, container.status = ''pending'', container.machine = None \<rparr>],
          arrays = [[1, 0], [1, 0, 2]] \<rparr>)
   \<and> elements \<lparr> objects = [demo_db, demo_server], arrays = [[1, 0]] \<rparr> 0
       = [demo_server, demo_db]
   \<and> elements (snd (addNginxContainer 0 demo_record
                       \<lparr> objects = [demo_db, demo_server], arrays = [[1, 0]] \<rparr>)) 0
       = [demo_server, demo_db]
   \<and> take 2 (elements (snd (addNginxContainer 0 demo_record
                       \<lparr> objects = [demo_db, demo_server], arrays = [[1, 0]] \<rparr>)) 1)
       = [demo_server, demo_db]"
proof -
  let ?h = "\<lparr> objects = [demo_db, demo_server], arrays = [[1, 0]] \<rparr>"
  have a: "0 < length (arrays ?h)"
    and b: "\<forall>obj \<in> set (arrays ?h ! 0). obj < length (objects ?h)"
    by simp_all
  have before: "elements ?h 0 = [demo_server, demo_db]"
    by (simp add: elements_def)
  have run: "addNginxContainer 0 demo_record ?h
     = (Inr 1,
        \<lparr> objects = [demo_db, demo_server,
             \<lparr> container.cleanName = ''demo'', container.image = ''jwilder/nginx-proxy'',
               dockerId = '''', container.name = ''proxy'', container.server = False,
               nginx = Some True, container.status = ''pending'', container.machine = None \<rparr>],
          arrays = [[1, 0], [1, 0, 2]] \<rparr>)"
    by (simp add: addNginxContainer_def containerObj_def spreadAppend_def setProperty_def
          demo_record_def)
  from addNginxContainer_appends [OF a b, of demo_record]
  obtain res h' where step: "addNginxContainer 0 demo_record ?h = (Inr res, h')"
    "take (length (elements ?h 0)) (elements h' res) = elements ?h 0"
    "elements h' 0 = elements ?h 0"
    by blast
  from step(1) have "res = 1" and "h' = snd (addNginxContainer 0 demo_record ?h)"
    unfolding run by auto
  with step(2,3) before
  have "elements (snd (addNginxContainer 0 demo_record ?h)) 0 = [demo_server, demo_db]"
    and "take 2 (elements (snd (addNginxContainer 0 demo_record ?h)) 1)
           = [demo_server, demo_db]"
    by (simp_all add: numeral_2_eq_2)
  with run before show ?thesis
    by blast
qed

end
